theory Spec2Isabelle
  imports Main
begin

section \<open>The tree model of the JSON store\<close>

text \<open>
  Go's \<open>interface{}\<close> values that the store handles. \<open>'n\<close> stands for \<open>float64\<close>
  (the type of every number the token reader produces); \<open>VDelim\<close> is a \<open>json.Delim\<close>
  kept as a value; \<open>'o\<close> stands for any other Go value
  whose JSON rendering is defined by reflection over types declared outside the store
  (an \<open>int\<close>, the \<open>stores.Metadata\<close> struct, ...). A \<open>sops.TreeBranch\<close> is a slice of
  \<open>sops.TreeItem\<close>, a \<open>sops.TreeBranches\<close> a slice of branches.
\<close>

datatype ('n, 'o) val =
    VNil
  | VBool bool
  | VFloat 'n
  | VString string
  | VSlice "('n, 'o) val list"
  | VBranch "('n, 'o) TreeItem list"
  | VComment string
  | VDelim char
  | VOpaque 'o
and ('n, 'o) TreeItem = TreeItem (Key: "('n, 'o) val") (Value: "('n, 'o) val")

type_synonym ('n, 'o) TreeBranch = "('n, 'o) TreeItem list"
type_synonym ('n, 'o) TreeBranches = "('n, 'o) TreeBranch list"

type_synonym bytes = string

text \<open>
  What \<open>json.Decoder.Token\<close> hands back: a delimiter (one of \<open>[ ] { }\<close>), a bool, a
  \<open>float64\<close>, a string, or \<open>nil\<close> (for the literal \<open>null\<close>, and beside every error).
\<close>

datatype 'n token = TNil | TDelim char | TBool bool | TFloat 'n | TString string

text \<open>
  Errors as values. The first group are the errors of \<open>io\<close> and \<open>encoding/json\<close>; the
  second group are the errors that \<open>store.go\<close> builds, one constructor per message, with the
  formatted arguments kept as fields.
\<close>

datatype 'n error =
    EOF
  | ErrUnexpectedEOF
  | SyntaxError "char option" string
  | UnmarshalTypeError string string string
  | UnsupportedValueError
  | External string
  | errEndOfObject
  | ExpectedObjectKey "'n token"
  | ExpectedObjectStartDelimiter "'n token"
  | ExpectedObjectStart "'n token"
  | ErrorEncodingValue "'n error"
  | ErrorEncodingKey "'n error"
  | IndentSmallerThanMinusOne
  | LegacyVersionNumber
  | ErrorUnmarshallingInputJson "'n error"
  | MetadataNotFound
  | CouldNotUnmarshalInputData "'n error"
  | ErrorMarshalingToJson "'n error"
  | BinaryStoreEmitPlainError string
  | BinaryFilesNotStructured

text \<open>The run-time panics that the store can raise.\<close>

datatype panic = IndexOutOfRange | SliceBoundsOutOfRange | InterfaceConversion | DecoderOutOfSync

text \<open>
  A Go call returning \<open>(T, error)\<close> either yields a value (\<open>err == nil\<close>), yields an
  error (the value beside it is never read by any caller in this file), or panics.
\<close>

datatype ('a, 'n) result = Ok 'a | Err "'n error" | Panic panic

record JSONStoreConfig =
  Indent :: int

record Store =
  config :: JSONStoreConfig

record BinaryStore =
  store :: Store
  binconfig :: JSONStoreConfig

section \<open>BinaryStore\<close>

definition BinaryStore_LoadPlainFile ::
  "BinaryStore \<Rightarrow> bytes \<Rightarrow> (('n, 'o) TreeBranches, 'n) result" where
  "BinaryStore_LoadPlainFile st inp = Ok [[TreeItem (VString ''data'') (VString inp)]]"

text \<open>The \<open>range\<close> loop of \<open>BinaryStore.EmitPlainFile\<close> over \<open>in[0]\<close>.\<close>

fun BinaryStore_EmitPlainFile_range :: "('n, 'o) TreeBranch \<Rightarrow> (bytes, 'n) result" where
  "BinaryStore_EmitPlainFile_range [] =
     Err (BinaryStoreEmitPlainError ''no binary data found in tree'')"
| "BinaryStore_EmitPlainFile_range (item # rest) =
     (if Key item = VString ''data'' then
        (case Value item of
           VString v \<Rightarrow> Ok v
         | _ \<Rightarrow> Err (BinaryStoreEmitPlainError
                      ([CHR 0x27] @ ''data'' @ [CHR 0x27] @ '' key in tree does not have a string value'')))
      else BinaryStore_EmitPlainFile_range rest)"

definition BinaryStore_EmitPlainFile ::
  "BinaryStore \<Rightarrow> ('n, 'o) TreeBranches \<Rightarrow> (bytes, 'n) result" where
  "BinaryStore_EmitPlainFile st inp =
     (case inp of
        [branch] \<Rightarrow> BinaryStore_EmitPlainFile_range branch
      | _ \<Rightarrow> Err (BinaryStoreEmitPlainError ''there must be exactly one tree branch''))"

definition BinaryStore_EmitValue :: "BinaryStore \<Rightarrow> ('n, 'o) val \<Rightarrow> (bytes, 'n) result" where
  "BinaryStore_EmitValue st v = Err BinaryFilesNotStructured"

definition BinaryStore_EmitExample :: "BinaryStore \<Rightarrow> bytes" where
  "BinaryStore_EmitExample st = ''Welcome to SOPS! Edit this file as you please!''"

section \<open>The scanner of encoding/json\<close>

text \<open>
  \<open>json.Indent\<close>, \<open>json.Decoder.Token\<close> and \<open>json.Unmarshal\<close> are library code; the store's
  behaviour on bytes is theirs. They share one state machine (\<open>scanner.go\<close>): the current
  step function, the stack of enclosing composites (most recent first here, last in Go),
  the \<open>endTop\<close> flag and the first error. The byte counter, used only for error offsets,
  is left out; a syntax error keeps the offending byte (\<open>None\<close> at the end of the input)
  and the context of its message.
\<close>

datatype step =
    stateBeginValueOrEmpty | stateBeginValue | stateBeginStringOrEmpty | stateBeginString
  | stateEndValue | stateEndTop | stateInString | stateInStringEsc | stateInStringEscU
  | stateInStringEscU1 | stateInStringEscU12 | stateInStringEscU123 | stateNeg | state1
  | state0 | stateDot | stateDot0 | stateE | stateESign | stateE0 | stateT | stateTr
  | stateTru | stateF | stateFa | stateFal | stateFals | stateN | stateNu | stateNul
  | stateError

datatype scanop =
    scanContinue | scanBeginLiteral | scanBeginObject | scanObjectKey | scanObjectValue
  | scanEndObject | scanBeginArray | scanArrayValue | scanEndArray | scanSkipSpace
  | scanEnd | scanError

datatype parse = parseObjectKey | parseObjectValue | parseArrayValue

record scanner =
  step :: step
  endTop :: bool
  parseState :: "parse list"
  err :: "(char option \<times> string) option"

definition maxNestingDepth :: nat where
  "maxNestingDepth = 10000"

definition newScanner :: scanner where
  "newScanner = \<lparr>step = stateBeginValue, endTop = False, parseState = [], err = None\<rparr>"

definition isSpace :: "char \<Rightarrow> bool" where
  "isSpace c = (c = CHR '' '' \<or> c = CHR 0x09 \<or> c = CHR 0x0D \<or> c = CHR 0x0A)"

definition isDigit :: "char \<Rightarrow> bool" where
  "isDigit c = (c \<in> set ''0123456789'')"

definition isDigit19 :: "char \<Rightarrow> bool" where
  "isDigit19 c = (c \<in> set ''123456789'')"

definition isHex :: "char \<Rightarrow> bool" where
  "isHex c = (c \<in> set ''0123456789abcdefABCDEF'')"

definition scan_error :: "scanner \<Rightarrow> char \<Rightarrow> string \<Rightarrow> scanop \<times> scanner" where
  "scan_error s c context = (scanError, s\<lparr>step := stateError, err := Some (Some c, context)\<rparr>)"

definition goto :: "scanner \<Rightarrow> step \<Rightarrow> scanop \<Rightarrow> scanop \<times> scanner" where
  "goto s st v = (v, s\<lparr>step := st\<rparr>)"

definition pushParseState :: "scanner \<Rightarrow> char \<Rightarrow> parse \<Rightarrow> scanop \<Rightarrow> scanop \<times> scanner" where
  "pushParseState s c newParseState successState =
     (let s' = s\<lparr>parseState := newParseState # parseState s\<rparr>
      in if length (parseState s') \<le> maxNestingDepth then (successState, s')
         else scan_error s' c ''exceeded max depth'')"

definition popParseState :: "scanner \<Rightarrow> scanner" where
  "popParseState s =
     (let ps = tl (parseState s)
      in if ps = [] then s\<lparr>parseState := ps, step := stateEndTop, endTop := True\<rparr>
         else s\<lparr>parseState := ps, step := stateEndValue\<rparr>)"

definition stateEndTop_fn :: "scanner \<Rightarrow> char \<Rightarrow> scanop \<times> scanner" where
  "stateEndTop_fn s c =
     (if \<not> isSpace c then (scanEnd, snd (scan_error s c ''after top-level value''))
      else (scanEnd, s))"

definition stateEndValue_fn :: "scanner \<Rightarrow> char \<Rightarrow> scanop \<times> scanner" where
  "stateEndValue_fn s c =
     (case parseState s of
        [] \<Rightarrow> stateEndTop_fn (s\<lparr>step := stateEndTop, endTop := True\<rparr>) c
      | ps # rest \<Rightarrow>
          if isSpace c then goto s stateEndValue scanSkipSpace
          else (case ps of
             parseObjectKey \<Rightarrow>
               if c = CHR '':'' then
                 (scanObjectKey, s\<lparr>parseState := parseObjectValue # rest, step := stateBeginValue\<rparr>)
               else scan_error s c ''after object key''
           | parseObjectValue \<Rightarrow>
               if c = CHR '','' then
                 (scanObjectValue, s\<lparr>parseState := parseObjectKey # rest, step := stateBeginString\<rparr>)
               else if c = CHR ''}'' then (scanEndObject, popParseState s)
               else scan_error s c ''after object key:value pair''
           | parseArrayValue \<Rightarrow>
               if c = CHR '','' then goto s stateBeginValue scanArrayValue
               else if c = CHR '']'' then (scanEndArray, popParseState s)
               else scan_error s c ''after array element''))"

definition stateBeginValue_fn :: "scanner \<Rightarrow> char \<Rightarrow> scanop \<times> scanner" where
  "stateBeginValue_fn s c =
     (if isSpace c then (scanSkipSpace, s)
      else if c = CHR ''{'' then
        pushParseState (s\<lparr>step := stateBeginStringOrEmpty\<rparr>) c parseObjectKey scanBeginObject
      else if c = CHR ''['' then
        pushParseState (s\<lparr>step := stateBeginValueOrEmpty\<rparr>) c parseArrayValue scanBeginArray
      else if c = CHR 0x22 then goto s stateInString scanBeginLiteral
      else if c = CHR ''-'' then goto s stateNeg scanBeginLiteral
      else if c = CHR ''0'' then goto s state0 scanBeginLiteral
      else if c = CHR ''t'' then goto s stateT scanBeginLiteral
      else if c = CHR ''f'' then goto s stateF scanBeginLiteral
      else if c = CHR ''n'' then goto s stateN scanBeginLiteral
      else if isDigit19 c then goto s state1 scanBeginLiteral
      else scan_error s c ''looking for beginning of value'')"

definition stateBeginValueOrEmpty_fn :: "scanner \<Rightarrow> char \<Rightarrow> scanop \<times> scanner" where
  "stateBeginValueOrEmpty_fn s c =
     (if isSpace c then (scanSkipSpace, s)
      else if c = CHR '']'' then stateEndValue_fn s c
      else stateBeginValue_fn s c)"

definition stateBeginString_fn :: "scanner \<Rightarrow> char \<Rightarrow> scanop \<times> scanner" where
  "stateBeginString_fn s c =
     (if isSpace c then (scanSkipSpace, s)
      else if c = CHR 0x22 then goto s stateInString scanBeginLiteral
      else scan_error s c ''looking for beginning of object key string'')"

definition stateBeginStringOrEmpty_fn :: "scanner \<Rightarrow> char \<Rightarrow> scanop \<times> scanner" where
  "stateBeginStringOrEmpty_fn s c =
     (if isSpace c then (scanSkipSpace, s)
      else if c = CHR ''}'' then
        stateEndValue_fn (s\<lparr>parseState := parseObjectValue # tl (parseState s)\<rparr>) c
      else stateBeginString_fn s c)"

definition stateInString_fn :: "scanner \<Rightarrow> char \<Rightarrow> scanop \<times> scanner" where
  "stateInString_fn s c =
     (if c = CHR 0x22 then goto s stateEndValue scanContinue
      else if c = CHR 0x5C then goto s stateInStringEsc scanContinue
      else if (of_char c :: nat) < 0x20 then scan_error s c ''in string literal''
      else (scanContinue, s))"

definition stateInStringEsc_fn :: "scanner \<Rightarrow> char \<Rightarrow> scanop \<times> scanner" where
  "stateInStringEsc_fn s c =
     (if c \<in> set (''bfnrt'' @ [CHR 0x5C, CHR ''/'', CHR 0x22]) then goto s stateInString scanContinue
      else if c = CHR ''u'' then goto s stateInStringEscU scanContinue
      else scan_error s c ''in string escape code'')"

definition hexState :: "step \<Rightarrow> scanner \<Rightarrow> char \<Rightarrow> scanop \<times> scanner" where
  "hexState next s c =
     (if isHex c then goto s next scanContinue
      else scan_error s c ''in hexadecimal character escape'')"

definition stateE0_fn :: "scanner \<Rightarrow> char \<Rightarrow> scanop \<times> scanner" where
  "stateE0_fn s c = (if isDigit c then (scanContinue, s) else stateEndValue_fn s c)"

definition stateESign_fn :: "scanner \<Rightarrow> char \<Rightarrow> scanop \<times> scanner" where
  "stateESign_fn s c =
     (if isDigit c then goto s stateE0 scanContinue
      else scan_error s c ''in exponent of numeric literal'')"

definition stateE_fn :: "scanner \<Rightarrow> char \<Rightarrow> scanop \<times> scanner" where
  "stateE_fn s c =
     (if c = CHR ''+'' \<or> c = CHR ''-'' then goto s stateESign scanContinue
      else stateESign_fn s c)"

definition stateDot0_fn :: "scanner \<Rightarrow> char \<Rightarrow> scanop \<times> scanner" where
  "stateDot0_fn s c =
     (if isDigit c then (scanContinue, s)
      else if c = CHR ''e'' \<or> c = CHR ''E'' then goto s stateE scanContinue
      else stateEndValue_fn s c)"

definition stateDot_fn :: "scanner \<Rightarrow> char \<Rightarrow> scanop \<times> scanner" where
  "stateDot_fn s c =
     (if isDigit c then goto s stateDot0 scanContinue
      else scan_error s c ''after decimal point in numeric literal'')"

definition state0_fn :: "scanner \<Rightarrow> char \<Rightarrow> scanop \<times> scanner" where
  "state0_fn s c =
     (if c = CHR ''.'' then goto s stateDot scanContinue
      else if c = CHR ''e'' \<or> c = CHR ''E'' then goto s stateE scanContinue
      else stateEndValue_fn s c)"

definition state1_fn :: "scanner \<Rightarrow> char \<Rightarrow> scanop \<times> scanner" where
  "state1_fn s c = (if isDigit c then goto s state1 scanContinue else state0_fn s c)"

definition stateNeg_fn :: "scanner \<Rightarrow> char \<Rightarrow> scanop \<times> scanner" where
  "stateNeg_fn s c =
     (if c = CHR ''0'' then goto s state0 scanContinue
      else if isDigit19 c then goto s state1 scanContinue
      else scan_error s c ''in numeric literal'')"

definition expect :: "char \<Rightarrow> step \<Rightarrow> string \<Rightarrow> scanner \<Rightarrow> char \<Rightarrow> scanop \<times> scanner" where
  "expect want next context s c =
     (if c = want then goto s next scanContinue else scan_error s c context)"

text \<open>\<open>s.step(s, c)\<close>: the call through the function value kept in the scanner.\<close>

fun step_fn :: "step \<Rightarrow> scanner \<Rightarrow> char \<Rightarrow> scanop \<times> scanner" where
  "step_fn stateBeginValueOrEmpty = stateBeginValueOrEmpty_fn"
| "step_fn stateBeginValue = stateBeginValue_fn"
| "step_fn stateBeginStringOrEmpty = stateBeginStringOrEmpty_fn"
| "step_fn stateBeginString = stateBeginString_fn"
| "step_fn stateEndValue = stateEndValue_fn"
| "step_fn stateEndTop = stateEndTop_fn"
| "step_fn stateInString = stateInString_fn"
| "step_fn stateInStringEsc = stateInStringEsc_fn"
| "step_fn stateInStringEscU = hexState stateInStringEscU1"
| "step_fn stateInStringEscU1 = hexState stateInStringEscU12"
| "step_fn stateInStringEscU12 = hexState stateInStringEscU123"
| "step_fn stateInStringEscU123 = hexState stateInString"
| "step_fn stateNeg = stateNeg_fn"
| "step_fn state1 = state1_fn"
| "step_fn state0 = state0_fn"
| "step_fn stateDot = stateDot_fn"
| "step_fn stateDot0 = stateDot0_fn"
| "step_fn stateE = stateE_fn"
| "step_fn stateESign = stateESign_fn"
| "step_fn stateE0 = stateE0_fn"
| "step_fn stateT = expect CHR ''r'' stateTr ''in literal true (expecting r)''"
| "step_fn stateTr = expect CHR ''u'' stateTru ''in literal true (expecting u)''"
| "step_fn stateTru = expect CHR ''e'' stateEndValue ''in literal true (expecting e)''"
| "step_fn stateF = expect CHR ''a'' stateFa ''in literal false (expecting a)''"
| "step_fn stateFa = expect CHR ''l'' stateFal ''in literal false (expecting l)''"
| "step_fn stateFal = expect CHR ''s'' stateFals ''in literal false (expecting s)''"
| "step_fn stateFals = expect CHR ''e'' stateEndValue ''in literal false (expecting e)''"
| "step_fn stateN = expect CHR ''u'' stateNu ''in literal null (expecting u)''"
| "step_fn stateNu = expect CHR ''l'' stateNul ''in literal null (expecting l)''"
| "step_fn stateNul = expect CHR ''l'' stateEndValue ''in literal null (expecting l)''"
| "step_fn stateError = (\<lambda>s c. (scanError, s))"

definition scan_step :: "scanner \<Rightarrow> char \<Rightarrow> scanop \<times> scanner" where
  "scan_step s c = step_fn (step s) s c"

text \<open>\<open>scanner.eof\<close>: the verdict at the end of the input, and the error it leaves.\<close>

definition scan_eof :: "scanner \<Rightarrow> scanop \<times> scanner" where
  "scan_eof s =
     (if err s \<noteq> None then (scanError, s)
      else if endTop s then (scanEnd, s)
      else let s' = snd (scan_step s CHR '' '')
           in if endTop s' then (scanEnd, s')
              else if err s' = None then (scanError, s'\<lparr>err := Some (None, ''unexpected end of JSON input'')\<rparr>)
              else (scanError, s'))"

section \<open>json.Indent and reindentJSON\<close>

definition appendNewline :: "bytes \<Rightarrow> string \<Rightarrow> string \<Rightarrow> int \<Rightarrow> bytes" where
  "appendNewline dst prefix indent depth =
     dst @ [CHR 0x0A] @ prefix @ concat (replicate (nat depth) indent)"

text \<open>
  The loop of \<open>json.Indent\<close> over the source bytes; it returns the scanner and the bytes
  written when the source is used up or the scanner reports an error (\<open>break\<close>).
\<close>

fun appendIndent_range ::
  "string \<Rightarrow> string \<Rightarrow> scanner \<Rightarrow> bool \<Rightarrow> int \<Rightarrow> bytes \<Rightarrow> bytes \<Rightarrow> scanner \<times> bytes" where
  "appendIndent_range prefix indent scan needIndent depth dst [] = (scan, dst)"
| "appendIndent_range prefix indent scan needIndent depth dst (c # src) =
     (case scan_step scan c of (v, scan') \<Rightarrow>
        if v = scanSkipSpace then appendIndent_range prefix indent scan' needIndent depth dst src
        else if v = scanError then (scan', dst)
        else
          let opening = (needIndent \<and> v \<noteq> scanEndObject \<and> v \<noteq> scanEndArray);
              needIndent1 = (if opening then False else needIndent);
              depth1 = (if opening then depth + 1 else depth);
              dst1 = (if opening then appendNewline dst prefix indent depth1 else dst)
          in
            if v = scanContinue then
              appendIndent_range prefix indent scan' needIndent1 depth1 (dst1 @ [c]) src
            else if c = CHR ''{'' \<or> c = CHR ''['' then
              appendIndent_range prefix indent scan' True depth1 (dst1 @ [c]) src
            else if c = CHR '','' then
              appendIndent_range prefix indent scan' needIndent1 depth1
                (appendNewline (dst1 @ [c]) prefix indent depth1) src
            else if c = CHR '':'' then
              appendIndent_range prefix indent scan' needIndent1 depth1 (dst1 @ [c, CHR '' '']) src
            else if c = CHR ''}'' \<or> c = CHR '']'' then
              (if needIndent1 then
                 appendIndent_range prefix indent scan' False depth1 (dst1 @ [c]) src
               else
                 appendIndent_range prefix indent scan' needIndent1 (depth1 - 1)
                   (appendNewline dst1 prefix indent (depth1 - 1) @ [c]) src)
            else appendIndent_range prefix indent scan' needIndent1 depth1 (dst1 @ [c]) src)"

definition json_Indent :: "bytes \<Rightarrow> string \<Rightarrow> string \<Rightarrow> (bytes, 'n) result" where
  "json_Indent src prefix indent =
     (case appendIndent_range prefix indent newScanner False 0 [] src of (scan, dst) \<Rightarrow>
        (case scan_eof scan of
           (v, scan') \<Rightarrow>
             if v = scanError then
               (case err scan' of
                  Some (c, context) \<Rightarrow> Err (SyntaxError c context)
                | None \<Rightarrow> Err (SyntaxError None []))
             else Ok dst))"

definition reindentJSON :: "Store \<Rightarrow> bytes \<Rightarrow> (bytes, 'n) result" where
  "reindentJSON st inp =
     (if Indent (config st) > -1 then
        json_Indent inp [] (replicate (nat (Indent (config st))) CHR '' '')
      else if Indent (config st) < -1 then Err IndentSmallerThanMinusOne
      else json_Indent inp [] [CHR 0x09])"

section \<open>json.Marshal on the values the store passes to it\<close>

text \<open>
  What the store needs from the rest of \<open>encoding/json\<close> and \<open>strconv\<close> that is not
  modelled here: how a \<open>float64\<close> is written (\<open>None\<close> for NaN and the infinities, which
  \<open>json.Marshal\<close> refuses), how a numeric literal is read (\<open>None\<close> when it is out of
  range), and how \<open>json.Marshal\<close> renders by reflection every value that is not a nil, bool,
  float64 or string.
\<close>

record ('n, 'o) jsonlib =
  FormatFloat :: "'n \<Rightarrow> string option"
  ParseFloat :: "string \<Rightarrow> 'n option"
  MarshalReflect :: "('n, 'o) val \<Rightarrow> (bytes, 'n) result"

definition RuneError :: nat where
  "RuneError = 0xFFFD"

text \<open>\<open>utf8.DecodeRuneInString\<close>: the code point at the head of the bytes and its width.\<close>

definition DecodeRune :: "bytes \<Rightarrow> nat \<times> nat" where
  "DecodeRune s =
     (case s of
        [] \<Rightarrow> (RuneError, 0)
      | c0 # _ \<Rightarrow>
          let s0 = (of_char c0 :: nat) in
          if s0 < 0x80 then (s0, 1)
          else if s0 < 0xC2 \<or> 0xF4 < s0 then (RuneError, 1)
          else
            let sz = (if s0 < 0xE0 then 2 else if s0 < 0xF0 then 3 else 4 :: nat);
                lo = (if s0 = 0xE0 then 0xA0 else if s0 = 0xF0 then 0x90 else 0x80 :: nat);
                hi = (if s0 = 0xED then 0x9F else if s0 = 0xF4 then 0x8F else 0xBF :: nat)
            in
              if length s < sz then (RuneError, 1)
              else
                let s1 = (of_char (s ! 1) :: nat) in
                if s1 < lo \<or> hi < s1 then (RuneError, 1)
                else if sz \<le> 2 then ((s0 mod 32) * 64 + s1 mod 64, 2)
                else
                  let s2 = (of_char (s ! 2) :: nat) in
                  if s2 < 0x80 \<or> 0xBF < s2 then (RuneError, 1)
                  else if sz \<le> 3 then ((s0 mod 16) * 4096 + (s1 mod 64) * 64 + s2 mod 64, 3)
                  else
                    let s3 = (of_char (s ! 3) :: nat) in
                    if s3 < 0x80 \<or> 0xBF < s3 then (RuneError, 1)
                    else ((s0 mod 8) * 262144 + (s1 mod 64) * 4096 + (s2 mod 64) * 64
                          + s3 mod 64, 4))"

definition hex :: "nat \<Rightarrow> char" where
  "hex n = ''0123456789abcdef'' ! (n mod 16)"

definition htmlSafeSet :: "char \<Rightarrow> bool" where
  "htmlSafeSet b =
     (0x20 \<le> (of_char b :: nat) \<and> (of_char b :: nat) < 0x80
      \<and> b \<notin> {CHR 0x22, CHR ''&'', CHR ''<'', CHR ''>'', CHR 0x5C})"

text \<open>
  \<open>appendString\<close> with \<open>escapeHTML\<close> set, as \<open>json.Marshal\<close> calls it, without the two
  quotation marks: the bytes of the source are copied, except the ones that are escaped.
\<close>

fun appendString_range :: "bytes \<Rightarrow> bytes" where
  "appendString_range [] = []"
| "appendString_range (b # src) =
     (if (of_char b :: nat) < 0x80 then
        (if htmlSafeSet b then [b]
         else if b = CHR 0x5C \<or> b = CHR 0x22 then [CHR 0x5C, b]
         else if b = CHR 0x08 then [CHR 0x5C, CHR ''b'']
         else if b = CHR 0x0C then [CHR 0x5C, CHR ''f'']
         else if b = CHR 0x0A then [CHR 0x5C, CHR ''n'']
         else if b = CHR 0x0D then [CHR 0x5C, CHR ''r'']
         else if b = CHR 0x09 then [CHR 0x5C, CHR ''t'']
         else [CHR 0x5C, CHR ''u'', CHR ''0'', CHR ''0'',
               hex (of_char b div 16), hex (of_char b mod 16)])
        @ appendString_range src
      else
        (case DecodeRune (take 4 (b # src)) of (c, width) \<Rightarrow>
           if c = RuneError \<and> width = 1 then
             [CHR 0x5C] @ ''ufffd'' @ appendString_range src
           else if c = 0x2028 \<or> c = 0x2029 then
             [CHR 0x5C] @ ''u202'' @ [hex (c mod 16)] @ appendString_range (drop (width - 1) src)
           else
             b # take (width - 1) src @ appendString_range (drop (width - 1) src)))"

definition appendString :: "bytes \<Rightarrow> bytes" where
  "appendString src = [CHR 0x22] @ appendString_range src @ [CHR 0x22]"

definition json_Marshal :: "('n, 'o) jsonlib \<Rightarrow> ('n, 'o) val \<Rightarrow> (bytes, 'n) result" where
  "json_Marshal lib v =
     (case v of
        VNil \<Rightarrow> Ok ''null''
      | VBool b \<Rightarrow> Ok (if b then ''true'' else ''false'')
      | VFloat f \<Rightarrow> (case FormatFloat lib f of None \<Rightarrow> Err UnsupportedValueError | Some t \<Rightarrow> Ok t)
      | VString s \<Rightarrow> Ok (appendString s)
      | _ \<Rightarrow> MarshalReflect lib v)"

section \<open>The encoder\<close>

text \<open>
  \<open>encodeValue\<close>, \<open>encodeArray\<close> and \<open>encodeTree\<close>, with each \<open>range\<close> loop as a function of
  the loop variables \<open>out\<close> and \<open>empty\<close> (here \<open>empty0\<close>) and of the items still to visit. In \<open>encodeTree\<close> the
  value is encoded before the key is looked at, and \<open>item.Key.(string)\<close> is the one-result
  form of the type assertion, which panics on a key that is not a string.
\<close>

fun encodeValue :: "('n, 'o) jsonlib \<Rightarrow> ('n, 'o) val \<Rightarrow> (bytes, 'n) result"
and encodeArray_range ::
  "('n, 'o) jsonlib \<Rightarrow> bytes \<Rightarrow> bool \<Rightarrow> ('n, 'o) val list \<Rightarrow> (bytes, 'n) result"
and encodeTree_range ::
  "('n, 'o) jsonlib \<Rightarrow> bytes \<Rightarrow> bool \<Rightarrow> ('n, 'o) TreeItem list \<Rightarrow> (bytes, 'n) result"
where
  "encodeValue lib (VBranch tree) = encodeTree_range lib ''{'' True tree"
| "encodeValue lib (VSlice array) = encodeArray_range lib ''['' True array"
| "encodeValue lib VNil = json_Marshal lib VNil"
| "encodeValue lib (VBool b) = json_Marshal lib (VBool b)"
| "encodeValue lib (VFloat f) = json_Marshal lib (VFloat f)"
| "encodeValue lib (VString s) = json_Marshal lib (VString s)"
| "encodeValue lib (VComment c) = json_Marshal lib (VComment c)"
| "encodeValue lib (VDelim d) = json_Marshal lib (VDelim d)"
| "encodeValue lib (VOpaque x) = json_Marshal lib (VOpaque x)"
| "encodeArray_range lib out empty0 [] = Ok (out @ '']'')"
| "encodeArray_range lib out empty0 (item # rest) =
     (case item of
        VComment _ \<Rightarrow> encodeArray_range lib out empty0 rest
      | _ \<Rightarrow>
        (case encodeValue lib item of
           Err e \<Rightarrow> Err e
         | Panic p \<Rightarrow> Panic p
         | Ok v \<Rightarrow> encodeArray_range lib ((if \<not> empty0 then out @ '','' else out) @ v) False rest))"
| "encodeTree_range lib out empty0 [] = Ok (out @ ''}'')"
| "encodeTree_range lib out empty0 (TreeItem key val # rest) =
     (case key of
        VComment _ \<Rightarrow> encodeTree_range lib out empty0 rest
      | _ \<Rightarrow>
        (case encodeValue lib val of
           Err e \<Rightarrow> Err (ErrorEncodingValue e)
         | Panic p \<Rightarrow> Panic p
         | Ok v \<Rightarrow>
             (case key of
                VString ks \<Rightarrow>
                  (case json_Marshal lib (VString ks) of
                     Err e \<Rightarrow> Err (ErrorEncodingKey e)
                   | Panic p \<Rightarrow> Panic p
                   | Ok k \<Rightarrow>
                       encodeTree_range lib
                         ((if \<not> empty0 then out @ '','' else out) @ k @ '': '' @ v) False rest)
              | _ \<Rightarrow> Panic InterfaceConversion)))"

definition encodeArray :: "('n, 'o) jsonlib \<Rightarrow> ('n, 'o) val list \<Rightarrow> (bytes, 'n) result" where
  "encodeArray lib array = encodeArray_range lib ''['' True array"

definition encodeTree :: "('n, 'o) jsonlib \<Rightarrow> ('n, 'o) TreeBranch \<Rightarrow> (bytes, 'n) result" where
  "encodeTree lib tree = encodeTree_range lib ''{'' True tree"

definition jsonFromTreeBranch ::
  "('n, 'o) jsonlib \<Rightarrow> Store \<Rightarrow> ('n, 'o) TreeBranch \<Rightarrow> (bytes, 'n) result" where
  "jsonFromTreeBranch lib st branch =
     (case encodeTree lib branch of
        Ok out \<Rightarrow> reindentJSON st out
      | Err e \<Rightarrow> Err e
      | Panic p \<Rightarrow> Panic p)"


definition EmitValue ::
  "('n, 'o) jsonlib \<Rightarrow> Store \<Rightarrow> ('n, 'o) val \<Rightarrow> (bytes, 'n) result" where
  "EmitValue lib st v =
     (case encodeValue lib v of
        Ok s \<Rightarrow> reindentJSON st s
      | Err e \<Rightarrow> Err e
      | Panic p \<Rightarrow> Panic p)"

section \<open>json.Decoder.Token\<close>

datatype tokenState =
    tokenTopValue | tokenArrayStart | tokenArrayValue | tokenArrayComma | tokenObjectStart
  | tokenObjectKey | tokenObjectColon | tokenObjectValue | tokenObjectComma

text \<open>
  A \<open>json.Decoder\<close> over a \<open>bytes.Reader\<close>: the bytes not yet consumed (\<open>buf[scanp:]\<close>
  followed by what the reader still holds), the token state and the stack of the enclosing
  composites' states (most recent first). A call that fails leaves the decoder as it was:
  the store calls \<open>Token\<close> again only after \<open>io.EOF\<close>, which the reader repeats.
\<close>

record Decoder =
  buf :: bytes
  tokenState :: tokenState
  tokenStack :: "tokenState list"

definition NewDecoder :: "bytes \<Rightarrow> Decoder" where
  "NewDecoder inp = \<lparr>buf = inp, tokenState = tokenTopValue, tokenStack = []\<rparr>"

definition tokenValueAllowed :: "Decoder \<Rightarrow> bool" where
  "tokenValueAllowed dec =
     (tokenState dec \<in> {tokenTopValue, tokenArrayStart, tokenArrayValue, tokenObjectValue})"

definition tokenValueEnd :: "Decoder \<Rightarrow> Decoder" where
  "tokenValueEnd dec =
     (if tokenState dec = tokenArrayStart \<or> tokenState dec = tokenArrayValue
        then dec\<lparr>tokenState := tokenArrayComma\<rparr>
      else if tokenState dec = tokenObjectValue then dec\<lparr>tokenState := tokenObjectComma\<rparr>
      else dec)"

definition tokenError :: "Decoder \<Rightarrow> char \<Rightarrow> 'n error" where
  "tokenError dec c =
     SyntaxError (Some c)
       (case tokenState dec of
          tokenTopValue \<Rightarrow> ''looking for beginning of value''
        | tokenArrayStart \<Rightarrow> ''looking for beginning of value''
        | tokenArrayValue \<Rightarrow> ''looking for beginning of value''
        | tokenObjectValue \<Rightarrow> ''looking for beginning of value''
        | tokenArrayComma \<Rightarrow> ''after array element''
        | tokenObjectKey \<Rightarrow> ''looking for beginning of object key string''
        | tokenObjectColon \<Rightarrow> ''after object key''
        | tokenObjectComma \<Rightarrow> ''after object key:value pair''
        | tokenObjectStart \<Rightarrow> [])"

text \<open>
  \<open>Decoder.readValue\<close>: the scanner, reset, runs over the bytes until the value that starts
  there is complete; the result is the number of bytes of the value.
\<close>

fun readValue_scan :: "scanner \<Rightarrow> bytes \<Rightarrow> nat \<Rightarrow> (nat, 'n) result" where
  "readValue_scan scan [] n =
     (if fst (scan_step scan CHR '' '') = scanEnd then Ok n else Err ErrUnexpectedEOF)"
| "readValue_scan scan (c # cs) n =
     (case scan_step scan c of (v, scan') \<Rightarrow>
        if v = scanEnd then Ok n
        else if (v = scanEndObject \<or> v = scanEndArray)
                \<and> fst (stateEndValue_fn scan' CHR '' '') = scanEnd then Ok (Suc n)
        else if v = scanError then
          (case err scan' of
             Some (ch, context) \<Rightarrow> Err (SyntaxError ch context)
           | None \<Rightarrow> Err (SyntaxError None []))
        else readValue_scan scan' cs (Suc n))"

definition readValue :: "bytes \<Rightarrow> (nat, 'n) result" where
  "readValue b = readValue_scan newScanner b 0"

definition EncodeRune :: "nat \<Rightarrow> bytes" where
  "EncodeRune r0 =
     (if r0 \<le> 0x7F then [char_of r0]
      else if r0 \<le> 0x7FF then [char_of (0xC0 + r0 div 64), char_of (0x80 + r0 mod 64)]
      else
        let r = (if r0 > 0x10FFFF \<or> (0xD800 \<le> r0 \<and> r0 \<le> 0xDFFF) then RuneError else r0)
        in if r \<le> 0xFFFF then
             [char_of (0xE0 + r div 4096), char_of (0x80 + (r div 64) mod 64),
              char_of (0x80 + r mod 64)]
           else
             [char_of (0xF0 + r div 262144), char_of (0x80 + (r div 4096) mod 64),
              char_of (0x80 + (r div 64) mod 64), char_of (0x80 + r mod 64)])"

definition hexval :: "char \<Rightarrow> nat option" where
  "hexval c =
     (let n = (of_char c :: nat) in
      if 0x30 \<le> n \<and> n \<le> 0x39 then Some (n - 0x30)
      else if 0x61 \<le> n \<and> n \<le> 0x66 then Some (n - 0x61 + 10)
      else if 0x41 \<le> n \<and> n \<le> 0x46 then Some (n - 0x41 + 10)
      else None)"

text \<open>\<open>getu4\<close>: the code unit of a \<open>\u\<close> escape at the head of the bytes, if there is one.\<close>

definition getu4 :: "bytes \<Rightarrow> nat option" where
  "getu4 s =
     (case s of
        b # u # h1 # h2 # h3 # h4 # _ \<Rightarrow>
          if b \<noteq> CHR 0x5C \<or> u \<noteq> CHR ''u'' then None
          else (case (hexval h1, hexval h2, hexval h3, hexval h4) of
                  (Some a, Some b, Some c, Some d) \<Rightarrow> Some (((a * 16 + b) * 16 + c) * 16 + d)
                | _ \<Rightarrow> None)
      | _ \<Rightarrow> None)"

definition utf16_DecodeRune :: "nat \<Rightarrow> nat \<Rightarrow> nat" where
  "utf16_DecodeRune r1 r2 =
     (if 0xD800 \<le> r1 \<and> r1 < 0xDC00 \<and> 0xDC00 \<le> r2 \<and> r2 < 0xE000
        then (r1 - 0xD800) * 1024 + (r2 - 0xDC00) + 0x10000
      else RuneError)"

text \<open>
  \<open>unquoteBytes\<close>, on the bytes between the quotation marks. The first loop finds the
  prefix that needs no unquoting (\<open>unquote_plain\<close> is its length); the second loop decodes
  the rest.
\<close>

function unquote_plain :: "bytes \<Rightarrow> nat" where
  "unquote_plain [] = 0"
| "unquote_plain (c # s) =
     (if c = CHR 0x5C \<or> c = CHR 0x22 \<or> (of_char c :: nat) < 0x20 then 0
      else if (of_char c :: nat) < 0x80 then Suc (unquote_plain s)
      else
        (case DecodeRune (c # s) of (rr, width) \<Rightarrow>
           if rr = RuneError \<and> width = 1 then 0
           else width + unquote_plain (drop (width - 1) s)))"
  by pat_completeness auto
termination
  by (relation "measure length") (auto intro: le_imp_less_Suc)

function unquote_range :: "bytes \<Rightarrow> bytes option" where
  "unquote_range [] = Some []"
| "unquote_range (c # s) =
     (if c = CHR 0x5C then
        (case s of
           [] \<Rightarrow> None
         | e # s' \<Rightarrow>
             if e = CHR 0x22 \<or> e = CHR 0x5C \<or> e = CHR ''/'' \<or> e = CHR 0x27 then
               map_option ((#) e) (unquote_range s')
             else if e = CHR ''b'' then map_option ((#) (CHR 0x08)) (unquote_range s')
             else if e = CHR ''f'' then map_option ((#) (CHR 0x0C)) (unquote_range s')
             else if e = CHR ''n'' then map_option ((#) (CHR 0x0A)) (unquote_range s')
             else if e = CHR ''r'' then map_option ((#) (CHR 0x0D)) (unquote_range s')
             else if e = CHR ''t'' then map_option ((#) (CHR 0x09)) (unquote_range s')
             else if e = CHR ''u'' then
               (case getu4 (c # s) of
                  None \<Rightarrow> None
                | Some rr \<Rightarrow>
                    if 0xD800 \<le> rr \<and> rr < 0xE000 then
                      (case getu4 (drop 5 s) of
                         Some rr1 \<Rightarrow>
                           if utf16_DecodeRune rr rr1 \<noteq> RuneError then
                             map_option ((@) (EncodeRune (utf16_DecodeRune rr rr1)))
                               (unquote_range (drop 11 s))
                           else map_option ((@) (EncodeRune RuneError)) (unquote_range (drop 5 s))
                       | None \<Rightarrow> map_option ((@) (EncodeRune RuneError)) (unquote_range (drop 5 s)))
                    else map_option ((@) (EncodeRune rr)) (unquote_range (drop 5 s)))
             else None)
      else if c = CHR 0x22 \<or> (of_char c :: nat) < 0x20 then None
      else if (of_char c :: nat) < 0x80 then map_option ((#) c) (unquote_range s)
      else
        (case DecodeRune (c # s) of (rr, width) \<Rightarrow>
           map_option ((@) (EncodeRune rr)) (unquote_range (drop (width - 1) s))))"
  by pat_completeness auto
termination
  by (relation "measure length") (auto intro: le_imp_less_Suc)

definition unquote :: "bytes \<Rightarrow> bytes option" where
  "unquote s0 =
     (if length s0 < 2 \<or> hd s0 \<noteq> CHR 0x22 \<or> last s0 \<noteq> CHR 0x22 then None
      else
        let s = butlast (tl s0); r = unquote_plain s
        in if r = length s then Some s
           else map_option ((@) (take r s)) (unquote_range (drop r s)))"

text \<open>
  \<open>Decoder.Decode\<close> as \<open>Token\<close> calls it, at a byte that starts no composite: the value is a
  literal. \<open>literal_any\<close> stores it into an \<open>any\<close>, \<open>literal_string\<close> into a \<open>string\<close>.
\<close>

definition literal_any :: "('n, 'o) jsonlib \<Rightarrow> bytes \<Rightarrow> ('n token, 'n) result" where
  "literal_any lib item =
     (case item of
        [] \<Rightarrow> Panic DecoderOutOfSync
      | c # _ \<Rightarrow>
          if c = CHR ''n'' then Ok TNil
          else if c = CHR ''t'' \<or> c = CHR ''f'' then Ok (TBool (c = CHR ''t''))
          else if c = CHR 0x22 then
            (case unquote item of None \<Rightarrow> Panic DecoderOutOfSync | Some s \<Rightarrow> Ok (TString s))
          else if c \<noteq> CHR ''-'' \<and> \<not> isDigit c then Panic DecoderOutOfSync
          else (case ParseFloat lib item of
                  None \<Rightarrow> Err (UnmarshalTypeError (''number '' @ item) [] [])
                | Some f \<Rightarrow> Ok (TFloat f)))"

definition literal_string :: "bytes \<Rightarrow> ('n token, 'n) result" where
  "literal_string item =
     (case unquote item of None \<Rightarrow> Panic DecoderOutOfSync | Some s \<Rightarrow> Ok (TString s))"

definition Decode_any ::
  "('n, 'o) jsonlib \<Rightarrow> Decoder \<Rightarrow> ('n token, 'n) result \<times> Decoder" where
  "Decode_any lib dec =
     (case readValue (buf dec) of
        Err e \<Rightarrow> (Err e, dec)
      | Panic p \<Rightarrow> (Panic p, dec)
      | Ok n \<Rightarrow>
          (case literal_any lib (take n (buf dec)) of
             Ok t \<Rightarrow> (Ok t, tokenValueEnd (dec\<lparr>buf := drop n (buf dec)\<rparr>))
           | r \<Rightarrow> (r, dec)))"

definition Decode_string :: "Decoder \<Rightarrow> ('n token, 'n) result \<times> Decoder" where
  "Decode_string dec =
     (case readValue (buf dec) of
        Err e \<Rightarrow> (Err e, dec)
      | Panic p \<Rightarrow> (Panic p, dec)
      | Ok n \<Rightarrow>
          (case literal_string (take n (buf dec)) of
             Ok t \<Rightarrow> (Ok t, dec\<lparr>buf := drop n (buf dec), tokenState := tokenObjectColon\<rparr>)
           | r \<Rightarrow> (r, dec)))"

text \<open>
  \<open>Decoder.Token\<close>. \<open>peek\<close> skips white space and fails with \<open>io.EOF\<close> at the end of the
  input; a colon or a comma in its place is consumed and the loop goes on.
\<close>

function Token :: "('n, 'o) jsonlib \<Rightarrow> Decoder \<Rightarrow> ('n token, 'n) result \<times> Decoder" where
  "Token lib dec =
     (case dropWhile isSpace (buf dec) of
        [] \<Rightarrow> (Err EOF, dec)
      | c # rest \<Rightarrow>
          if c = CHR ''['' then
            (if \<not> tokenValueAllowed dec then (Err (tokenError dec c), dec)
             else (Ok (TDelim c),
                   dec\<lparr>buf := rest, tokenStack := tokenState dec # tokenStack dec,
                       tokenState := tokenArrayStart\<rparr>))
          else if c = CHR '']'' then
            (if tokenState dec \<noteq> tokenArrayStart \<and> tokenState dec \<noteq> tokenArrayComma
               then (Err (tokenError dec c), dec)
             else (case tokenStack dec of
                     [] \<Rightarrow> (Panic IndexOutOfRange, dec)
                   | prev # stack \<Rightarrow>
                       (Ok (TDelim c),
                        tokenValueEnd (dec\<lparr>buf := rest, tokenState := prev, tokenStack := stack\<rparr>))))
          else if c = CHR ''{'' then
            (if \<not> tokenValueAllowed dec then (Err (tokenError dec c), dec)
             else (Ok (TDelim c),
                   dec\<lparr>buf := rest, tokenStack := tokenState dec # tokenStack dec,
                       tokenState := tokenObjectStart\<rparr>))
          else if c = CHR ''}'' then
            (if tokenState dec \<noteq> tokenObjectStart \<and> tokenState dec \<noteq> tokenObjectComma
               then (Err (tokenError dec c), dec)
             else (case tokenStack dec of
                     [] \<Rightarrow> (Panic IndexOutOfRange, dec)
                   | prev # stack \<Rightarrow>
                       (Ok (TDelim c),
                        tokenValueEnd (dec\<lparr>buf := rest, tokenState := prev, tokenStack := stack\<rparr>))))
          else if c = CHR '':'' then
            (if tokenState dec \<noteq> tokenObjectColon then (Err (tokenError dec c), dec)
             else Token lib (dec\<lparr>buf := rest, tokenState := tokenObjectValue\<rparr>))
          else if c = CHR '','' then
            (if tokenState dec = tokenArrayComma
               then Token lib (dec\<lparr>buf := rest, tokenState := tokenArrayValue\<rparr>)
             else if tokenState dec = tokenObjectComma
               then Token lib (dec\<lparr>buf := rest, tokenState := tokenObjectKey\<rparr>)
             else (Err (tokenError dec c), dec))
          else if c = CHR 0x22
                  \<and> (tokenState dec = tokenObjectStart \<or> tokenState dec = tokenObjectKey) then
            (case Decode_string (dec\<lparr>buf := c # rest\<rparr>) of
               (Ok t, dec') \<Rightarrow> (Ok t, dec')
             | (r, _) \<Rightarrow> (r, dec))
          else
            (if \<not> tokenValueAllowed dec then (Err (tokenError dec c), dec)
             else (case Decode_any lib (dec\<lparr>buf := c # rest\<rparr>) of
                     (Ok t, dec') \<Rightarrow> (Ok t, dec')
                   | (r, _) \<Rightarrow> (r, dec))))"
  by pat_completeness auto
termination
proof (relation "measure (\<lambda>(lib, dec). length (buf dec))")
  fix lib :: "('n, 'o) jsonlib" and dec :: Decoder and c rest
  assume "dropWhile isSpace (buf dec) = c # rest"
  then have "Suc (length rest) = length (dropWhile isSpace (buf dec))"
    by simp
  then have "length rest < length (buf dec)"
    using length_dropWhile_le [of isSpace "buf dec"] by linarith
  then show "((lib, dec\<lparr>buf := rest, tokenState := tokenObjectValue\<rparr>), lib, dec)
               \<in> measure (\<lambda>(lib, dec). length (buf dec))"
    and "((lib, dec\<lparr>buf := rest, tokenState := tokenArrayValue\<rparr>), lib, dec)
               \<in> measure (\<lambda>(lib, dec). length (buf dec))"
    and "((lib, dec\<lparr>buf := rest, tokenState := tokenObjectKey\<rparr>), lib, dec)
               \<in> measure (\<lambda>(lib, dec). length (buf dec))"
    by simp_all
qed simp

lemma literal_any_nonempty: "literal_any lib item = Ok t \<Longrightarrow> item \<noteq> []"
  by (auto simp: literal_any_def)

lemma literal_string_nonempty: "literal_string item = Ok t \<Longrightarrow> item \<noteq> []"
  by (auto simp: literal_string_def unquote_def split: option.splits if_splits)

lemma drop_shorter: "take n b \<noteq> [] \<Longrightarrow> length (drop n b) < length b"
  by (cases n; cases b) auto

lemma tokenValueEnd_buf [simp]: "buf (tokenValueEnd dec) = buf dec"
  by (simp add: tokenValueEnd_def)

lemma dropWhile_Cons_shorter:
  "dropWhile P xs = c # rest \<Longrightarrow> length rest < length xs"
  using length_dropWhile_le [of P xs] by simp

lemma Decode_any_shorter:
  "Decode_any lib dec = (Ok t, dec') \<Longrightarrow> length (buf dec') < length (buf dec)"
  unfolding Decode_any_def
  by (auto split: result.splits dest!: literal_any_nonempty drop_shorter)

lemma Decode_string_shorter:
  "Decode_string dec = (Ok t, dec') \<Longrightarrow> length (buf dec') < length (buf dec)"
  unfolding Decode_string_def
  by (auto split: result.splits dest!: literal_string_nonempty drop_shorter)

lemma Token_shorter:
  "Token lib dec = (Ok t, dec') \<Longrightarrow> length (buf dec') < length (buf dec)"
proof (induction lib dec rule: Token.induct)
  case (1 lib dec)
  show ?case
  proof (cases "dropWhile isSpace (buf dec)")
    case Nil
    with "1.prems" show ?thesis by (simp add: Token.simps [of lib dec])
  next
    case (Cons c rest)
    note sh = dropWhile_Cons_shorter [OF Cons]
    have le: "length (c # rest) \<le> length (buf dec)"
      using length_dropWhile_le [of isSpace "buf dec"] Cons by simp
    from "1.prems" Cons sh le "1.IH" [OF Cons] show ?thesis
      apply (simp add: Token.simps [of lib dec] split: if_splits list.splits prod.splits result.splits)
      apply (auto dest!: Decode_any_shorter Decode_string_shorter)
      done
  qed
qed

lemma Token_le:
  "Token lib dec = (r, dec') \<Longrightarrow> length (buf dec') \<le> length (buf dec)"
proof (induction lib dec rule: Token.induct)
  case (1 lib dec)
  show ?case
  proof (cases "dropWhile isSpace (buf dec)")
    case Nil
    with "1.prems" show ?thesis by (simp add: Token.simps [of lib dec])
  next
    case (Cons c rest)
    note sh = dropWhile_Cons_shorter [OF Cons]
    have le: "length (c # rest) \<le> length (buf dec)"
      using length_dropWhile_le [of isSpace "buf dec"] Cons by simp
    from "1.prems" Cons sh le "1.IH" [OF Cons] show ?thesis
      apply (simp add: Token.simps [of lib dec] split: if_splits list.splits prod.splits result.splits)
      apply (auto dest!: Decode_any_shorter Decode_string_shorter)
      done
  qed
qed

section \<open>The decoder\<close>

text \<open>
  The token the store keeps as an item's value or a slice's element. The three collectors
  follow; each \<open>for\<close> loop is a function of what it has collected so far and of the
  decoder. In \<open>treeItemFromJSONDecoder\<close> an \<open>io.EOF\<close> in place of the key is let through, and
  the key beside it is \<open>nil\<close>: neither a string nor a delimiter.
\<close>

fun token_value :: "'n token \<Rightarrow> ('n, 'o) val" where
  "token_value TNil = VNil"
| "token_value (TDelim d) = VDelim d"
| "token_value (TBool b) = VBool b"
| "token_value (TFloat f) = VFloat f"
| "token_value (TString s) = VString s"

function sliceFromJSONDecoder_loop ::
  "('n, 'o) jsonlib \<Rightarrow> ('n, 'o) val list \<Rightarrow> Decoder \<Rightarrow> (('n, 'o) val list, 'n) result \<times> Decoder"
and treeItemFromJSONDecoder ::
  "('n, 'o) jsonlib \<Rightarrow> Decoder \<Rightarrow> (('n, 'o) TreeItem, 'n) result \<times> Decoder"
and treeBranchFromJSONDecoder_loop ::
  "('n, 'o) jsonlib \<Rightarrow> ('n, 'o) TreeBranch \<Rightarrow> Decoder \<Rightarrow> (('n, 'o) TreeBranch, 'n) result \<times> Decoder"
where
  "sliceFromJSONDecoder_loop lib slice dec =
     (case Token lib dec of
        (Err e, dec1) \<Rightarrow> (Err e, dec1)
      | (Panic p, dec1) \<Rightarrow> (Panic p, dec1)
      | (Ok t, dec1) \<Rightarrow>
          if t = TDelim CHR '']'' then (Ok slice, dec1)
          else if t = TDelim CHR ''{'' then
            (case treeBranchFromJSONDecoder_loop lib [] dec1 of
               (Ok item, dec2) \<Rightarrow> sliceFromJSONDecoder_loop lib (slice @ [VBranch item]) dec2
             | (Err e, dec2) \<Rightarrow> (Err e, dec2)
             | (Panic p, dec2) \<Rightarrow> (Panic p, dec2))
          else if t = TDelim CHR ''['' then
            (case sliceFromJSONDecoder_loop lib [] dec1 of
               (Ok item, dec2) \<Rightarrow> sliceFromJSONDecoder_loop lib (slice @ [VSlice item]) dec2
             | (Err e, dec2) \<Rightarrow> (Err e, dec2)
             | (Panic p, dec2) \<Rightarrow> (Panic p, dec2))
          else sliceFromJSONDecoder_loop lib (slice @ [token_value t]) dec1)"
| "treeItemFromJSONDecoder lib dec =
     (case Token lib dec of
        (Panic p, dec1) \<Rightarrow> (Panic p, dec1)
      | (Err e, dec1) \<Rightarrow>
          if e \<noteq> EOF then (Err e, dec1) else (Err (ExpectedObjectKey TNil), dec1)
      | (Ok key, dec1) \<Rightarrow>
          (case key of
             TString k \<Rightarrow>
               (case Token lib dec1 of
                  (Err e, dec2) \<Rightarrow> (Err e, dec2)
                | (Panic p, dec2) \<Rightarrow> (Panic p, dec2)
                | (Ok v, dec2) \<Rightarrow>
                    (case v of
                       TDelim d \<Rightarrow>
                         if d = CHR ''['' then
                           (case sliceFromJSONDecoder_loop lib [] dec2 of
                              (Ok x, dec3) \<Rightarrow> (Ok (TreeItem (VString k) (VSlice x)), dec3)
                            | (Err e, dec3) \<Rightarrow> (Err e, dec3)
                            | (Panic p, dec3) \<Rightarrow> (Panic p, dec3))
                         else if d = CHR ''{'' then
                           (case treeBranchFromJSONDecoder_loop lib [] dec2 of
                              (Ok x, dec3) \<Rightarrow> (Ok (TreeItem (VString k) (VBranch x)), dec3)
                            | (Err e, dec3) \<Rightarrow> (Err e, dec3)
                            | (Panic p, dec3) \<Rightarrow> (Panic p, dec3))
                         else (Ok (TreeItem (VString k) VNil), dec2)
                     | _ \<Rightarrow> (Ok (TreeItem (VString k) (token_value v)), dec2)))
           | TDelim d \<Rightarrow>
               if d = CHR ''}'' then (Err errEndOfObject, dec1)
               else (Err (ExpectedObjectKey key), dec1)
           | _ \<Rightarrow> (Err (ExpectedObjectKey key), dec1)))"
| "treeBranchFromJSONDecoder_loop lib tree dec =
     (case treeItemFromJSONDecoder lib dec of
        (Err e, dec1) \<Rightarrow>
          if e = EOF then (Ok tree, dec1)
          else if e = errEndOfObject then (Ok tree, dec1)
          else (Err e, dec1)
      | (Panic p, dec1) \<Rightarrow> (Panic p, dec1)
      | (Ok item, dec1) \<Rightarrow> treeBranchFromJSONDecoder_loop lib (tree @ [item]) dec1)"
  by pat_completeness auto

lemma dec_le:
  "sliceFromJSONDecoder_loop_treeItemFromJSONDecoder_treeBranchFromJSONDecoder_loop_dom (Inl (lib, slice, dec)) \<Longrightarrow>
     length (buf (snd (sliceFromJSONDecoder_loop lib slice dec))) \<le> length (buf dec)"
  "sliceFromJSONDecoder_loop_treeItemFromJSONDecoder_treeBranchFromJSONDecoder_loop_dom (Inr (Inl (lib, dec))) \<Longrightarrow>
     length (buf (snd (treeItemFromJSONDecoder lib dec))) \<le> length (buf dec)
     \<and> (\<forall>x. fst (treeItemFromJSONDecoder lib dec) = Ok x \<longrightarrow> length (buf (snd (treeItemFromJSONDecoder lib dec))) < length (buf dec))"
  "sliceFromJSONDecoder_loop_treeItemFromJSONDecoder_treeBranchFromJSONDecoder_loop_dom (Inr (Inr (lib, tree, dec))) \<Longrightarrow>
     length (buf (snd (treeBranchFromJSONDecoder_loop lib tree dec))) \<le> length (buf dec)"
proof (induct rule: sliceFromJSONDecoder_loop_treeItemFromJSONDecoder_treeBranchFromJSONDecoder_loop.pinduct)
  case (1 lib slice dec)
  obtain r dec1 where tk: "Token lib dec = (r, dec1)" by (cases "Token lib dec")
  note le1 = Token_le [OF tk]
  show ?case
  proof (cases r)
    case (Ok t)
    note IH = "1.hyps"(2-6) [OF tk [symmetric] Ok]
    show ?thesis
      using tk Ok le1 IH
      apply (simp add: sliceFromJSONDecoder_loop.psimps [OF "1.hyps"(1)] split: prod.splits result.splits)
      apply (auto split: if_splits)
      done
  next
    case (Err e)
    then show ?thesis using tk le1 by (simp add: sliceFromJSONDecoder_loop.psimps [OF "1.hyps"(1)])
  next
    case (Panic p)
    then show ?thesis using tk le1 by (simp add: sliceFromJSONDecoder_loop.psimps [OF "1.hyps"(1)])
  qed
next
  case (2 lib dec)
  obtain r dec1 where tk: "Token lib dec = (r, dec1)" by (cases "Token lib dec")
  note c1 = Token_le [OF tk]
  show ?case
  proof (cases r)
    case (Ok key)
    show ?thesis
    proof (cases key)
      case (TString k)
      obtain r2 dec2 where tk2: "Token lib dec1 = (r2, dec2)" by (cases "Token lib dec1")
      note c2 = Token_le [OF tk2]
      show ?thesis
      proof (cases r2)
        case v: (Ok v)
        note IH = "2.hyps"(2-3) [OF tk [symmetric] Ok TString tk2 [symmetric] v]
        have lt: "length (buf dec2) < length (buf dec)"
          using c1 Token_shorter [of lib dec1 v dec2] tk2 v by auto
        show ?thesis
        proof (cases v)
          case (TDelim d)
          show ?thesis
          proof (cases "d = CHR ''[''")
            case True
            with IH(1) [OF TDelim True] tk Ok TString tk2 v TDelim lt show ?thesis
              by (auto simp add: treeItemFromJSONDecoder.psimps [OF "2.hyps"(1)]
                       split: prod.splits result.splits)
          next
            case False
            note nb = False
            show ?thesis
            proof (cases "d = CHR ''{''")
              case True
              with IH(2) [OF TDelim nb True] tk Ok TString tk2 v TDelim lt nb show ?thesis
                by (auto simp add: treeItemFromJSONDecoder.psimps [OF "2.hyps"(1)]
                         split: prod.splits result.splits)
            next
              case False
              with tk Ok TString tk2 v TDelim lt nb show ?thesis
                by (simp add: treeItemFromJSONDecoder.psimps [OF "2.hyps"(1)])
            qed
          qed
        qed (use tk Ok TString tk2 v lt in
              \<open>simp_all add: treeItemFromJSONDecoder.psimps [OF "2.hyps"(1)]\<close>)
      qed (use tk Ok TString tk2 c1 c2 in
            \<open>simp_all add: treeItemFromJSONDecoder.psimps [OF "2.hyps"(1)]\<close>)
    qed (use tk Ok c1 in \<open>simp_all add: treeItemFromJSONDecoder.psimps [OF "2.hyps"(1)]\<close>)
  qed (use tk c1 in \<open>simp_all add: treeItemFromJSONDecoder.psimps [OF "2.hyps"(1)]\<close>)
next
  case (3 lib tree dec)
  obtain r dec1 where ti: "treeItemFromJSONDecoder lib dec = (r, dec1)"
    by (cases "treeItemFromJSONDecoder lib dec")
  from "3.hyps"(2) ti have le: "length (buf dec1) \<le> length (buf dec)" by simp
  show ?case
  proof (cases r)
    case (Ok item)
    from "3.hyps"(3) [OF ti [symmetric] Ok] le ti Ok show ?thesis
      by (simp add: treeBranchFromJSONDecoder_loop.psimps [OF "3.hyps"(1)])
  qed (use ti le in \<open>simp_all add: treeBranchFromJSONDecoder_loop.psimps [OF "3.hyps"(1)]\<close>)
qed

termination sliceFromJSONDecoder_loop
proof (relation "measure (\<lambda>x. case x of
          Inl (lib, slice, dec) \<Rightarrow> 2 * length (buf dec) + 1
        | Inr (Inl (lib, dec)) \<Rightarrow> 2 * length (buf dec)
        | Inr (Inr (lib, tree, dec)) \<Rightarrow> 2 * length (buf dec) + 1)", goal_cases)
  case 1
  show ?case by simp
next
  case (2 lib slice dec x y x1)
  then show ?case using Token_shorter [of lib dec x1 y] by simp
next
  case (3 lib slice dec x y x1 xa ya x1a)
  then show ?case
    using Token_shorter [of lib dec x1 y] dec_le(3) [of lib "[]" y] by (simp add: snd_def split: prod.splits) 
next
  case (4 lib slice dec x y x1)
  then show ?case using Token_shorter [of lib dec x1 y] by simp
next
  case (5 lib slice dec x y x1 xa ya x1a)
  then show ?case
    using Token_shorter [of lib dec x1 y] dec_le(1) [of lib "[]" y] by (simp add: snd_def split: prod.splits)
next
  case (6 lib slice dec x y x1)
  then show ?case using Token_shorter [of lib dec x1 y] by simp
next
  case (7 lib dec x y x1 x5 xa ya x1a x2)
  then show ?case using Token_shorter [of lib dec x1 y] Token_shorter [of lib y x1a ya] by simp
next
  case (8 lib dec x y x1 x5 xa ya x1a x2)
  then show ?case using Token_shorter [of lib dec x1 y] Token_shorter [of lib y x1a ya] by simp
next
  case (9 lib tree dec)
  then show ?case by simp
next
  case (10 lib tree dec x y x1)
  then show ?case
    using dec_le(2) [of lib dec] by (simp add: snd_def fst_def split: prod.splits)
qed

text \<open>\<open>treeBranchFromJSONDecoder\<close> and \<open>sliceFromJSONDecoder\<close> start their loop with nothing collected.\<close>

definition sliceFromJSONDecoder ::
  "('n, 'o) jsonlib \<Rightarrow> Decoder \<Rightarrow> (('n, 'o) val list, 'n) result \<times> Decoder" where
  "sliceFromJSONDecoder lib dec = sliceFromJSONDecoder_loop lib [] dec"

definition treeBranchFromJSONDecoder ::
  "('n, 'o) jsonlib \<Rightarrow> Decoder \<Rightarrow> (('n, 'o) TreeBranch, 'n) result \<times> Decoder" where
  "treeBranchFromJSONDecoder lib dec = treeBranchFromJSONDecoder_loop lib [] dec"

definition treeBranchFromJSON ::
  "('n, 'o) jsonlib \<Rightarrow> bytes \<Rightarrow> (('n, 'o) TreeBranch, 'n) result" where
  "treeBranchFromJSON lib inp =
     (case Token lib (NewDecoder inp) of
        (Err e, dec) \<Rightarrow> Err e
      | (Panic p, dec) \<Rightarrow> Panic p
      | (Ok v, dec) \<Rightarrow>
          (case v of
             TDelim delim \<Rightarrow>
               if delim \<noteq> CHR ''{'' then Err (ExpectedObjectStartDelimiter v)
               else fst (treeBranchFromJSONDecoder lib dec)
           | _ \<Rightarrow> Err (ExpectedObjectStart v)))"


section \<open>Metadata and the encrypted file\<close>

text \<open>
  The package \<open>stores\<close> is not part of this file. What \<open>store.go\<close> calls of it is taken as
  given: \<open>json.Unmarshal\<close> into a \<open>stores.SopsFile\<close> (the result is the \<open>Metadata\<close> pointer,
  \<open>None\<close> for \<open>nil\<close>), \<open>Metadata.ToInternal\<close> and \<open>stores.MetadataFromInternal\<close>. \<open>'o\<close> is
  \<open>stores.Metadata\<close> and \<open>'m\<close> is \<open>sops.Metadata\<close>.
\<close>

record ('n, 'o, 'm) storespkg =
  UnmarshalSopsFile :: "bytes \<Rightarrow> ('o option, 'n) result"
  ToInternal :: "'o \<Rightarrow> ('m, 'n) result"
  MetadataFromInternal :: "'m \<Rightarrow> 'o"

text \<open>
  Modelled from the spec: the constant \<open>stores.SopsMetadataKey\<close>, declared outside
  \<open>store.go\<close>. It is the reserved metadata key; the comment on \<open>HasSopsTopLevelKey\<close> and the
  examples name it.
\<close>

definition SopsMetadataKey :: string where
  "SopsMetadataKey = ''sops''"

record ('n, 'o, 'm) Tree =
  Branches :: "('n, 'o) TreeBranches"
  Metadata :: 'm

text \<open>
  The loop that discards the metadata. \<open>range branch\<close> fixes the slice it walks (its length
  \<open>n\<close> and its array) before the first iteration, and reads \<open>item\<close> from the array at each
  one; the body assigns to \<open>branch\<close> the result of \<open>append(branch[:i], branch[i+1:]...)\<close>,
  which has room in the same array and so moves the elements after \<open>i\<close> down by one in
  place. The state is the array \<open>arr\<close> and the current length \<open>len\<close> of \<open>branch\<close>;
  \<open>branch[i+1:]\<close> panics when \<open>i+1\<close> exceeds that length.
\<close>

function discardMetadata_range ::
  "nat \<Rightarrow> nat \<Rightarrow> ('n, 'o) TreeItem list \<Rightarrow> nat \<Rightarrow> (('n, 'o) TreeBranch, 'n) result" where
  "discardMetadata_range n i arr len =
     (if i < n then
        (if Key (arr ! i) = VString SopsMetadataKey then
           (if i + 1 > len then Panic SliceBoundsOutOfRange
            else discardMetadata_range n (i + 1)
                   (take i arr @ take (len - (i + 1)) (drop (i + 1) arr) @ drop (len - 1) arr)
                   (len - 1))
         else discardMetadata_range n (i + 1) arr len)
      else Ok (take len arr))"
  by pat_completeness auto
termination
  by (relation "measure (\<lambda>(n, i, arr, len). n - i)") auto

definition discardMetadata :: "('n, 'o) TreeBranch \<Rightarrow> (('n, 'o) TreeBranch, 'n) result" where
  "discardMetadata branch = discardMetadata_range (length branch) 0 branch (length branch)"

definition LoadEncryptedFile ::
  "('n, 'o) jsonlib \<Rightarrow> ('n, 'o, 'm) storespkg \<Rightarrow> Store \<Rightarrow> bytes
     \<Rightarrow> (('n, 'o, 'm) Tree, 'n) result" where
  "LoadEncryptedFile lib pkg st inp =
     (case UnmarshalSopsFile pkg inp of
        Err e \<Rightarrow>
          (case e of
             UnmarshalTypeError v s f \<Rightarrow>
               if v = ''number'' \<and> s = ''Metadata'' \<and> f = ''version''
                 then Err LegacyVersionNumber
               else Err (ErrorUnmarshallingInputJson e)
           | _ \<Rightarrow> Err (ErrorUnmarshallingInputJson e))
      | Panic p \<Rightarrow> Panic p
      | Ok None \<Rightarrow> Err MetadataNotFound
      | Ok (Some holder) \<Rightarrow>
          (case ToInternal pkg holder of
             Err e \<Rightarrow> Err e
           | Panic p \<Rightarrow> Panic p
           | Ok metadata \<Rightarrow>
               (case treeBranchFromJSON lib inp of
                  Err e \<Rightarrow> Err (CouldNotUnmarshalInputData e)
                | Panic p \<Rightarrow> Panic p
                | Ok branch \<Rightarrow>
                    (case discardMetadata branch of
                       Err e \<Rightarrow> Err e
                     | Panic p \<Rightarrow> Panic p
                     | Ok body \<Rightarrow> Ok \<lparr>Branches = [body], Metadata = metadata\<rparr>))))"

definition EmitEncryptedFile ::
  "('n, 'o) jsonlib \<Rightarrow> ('n, 'o, 'm) storespkg \<Rightarrow> Store \<Rightarrow> ('n, 'o, 'm) Tree
     \<Rightarrow> (bytes, 'n) result" where
  "EmitEncryptedFile lib pkg st inp =
     (case Branches inp of
        [] \<Rightarrow> Panic IndexOutOfRange
      | branch # _ \<Rightarrow>
          (case jsonFromTreeBranch lib st
                  (branch @ [TreeItem (VString SopsMetadataKey)
                                      (VOpaque (MetadataFromInternal pkg (Metadata inp)))]) of
             Ok out \<Rightarrow> Ok (out @ [CHR 0x0A])
           | Err e \<Rightarrow> Err (ErrorMarshalingToJson e)
           | Panic p \<Rightarrow> Panic p))"

definition BinaryStore_LoadEncryptedFile ::
  "('n, 'o) jsonlib \<Rightarrow> ('n, 'o, 'm) storespkg \<Rightarrow> BinaryStore \<Rightarrow> bytes
     \<Rightarrow> (('n, 'o, 'm) Tree, 'n) result" where
  "BinaryStore_LoadEncryptedFile lib pkg st inp = LoadEncryptedFile lib pkg (store st) inp"

definition BinaryStore_EmitEncryptedFile ::
  "('n, 'o) jsonlib \<Rightarrow> ('n, 'o, 'm) storespkg \<Rightarrow> BinaryStore \<Rightarrow> ('n, 'o, 'm) Tree
     \<Rightarrow> (bytes, 'n) result" where
  "BinaryStore_EmitEncryptedFile lib pkg st inp = EmitEncryptedFile lib pkg (store st) inp"

section \<open>Instances used in examples\<close>

text \<open>
  A library instance in which a number is kept as the text of its literal and nothing is
  rendered by reflection, a \<open>stores\<close> package with a one-valued metadata type, a store that
  indents with two spaces, and the decoder as it stands right after the opening brace of
  the top-level object.
\<close>

definition exampleLib :: "(string, unit) jsonlib" where
  "exampleLib =
     \<lparr>FormatFloat = Some, ParseFloat = Some, MarshalReflect = (\<lambda>v. Err UnsupportedValueError)\<rparr>"




section \<open>Predicates on trees\<close>

text \<open>
  \<open>stringKeys\<close> holds of a value when every key that the encoder reaches in it, at any
  depth, is a string or a comment.
\<close>

fun isComment :: "('n, 'o) val \<Rightarrow> bool" where
  "isComment (VComment c) = True"
| "isComment _ = False"

fun isString :: "('n, 'o) val \<Rightarrow> bool" where
  "isString (VString s) = True"
| "isString _ = False"


section \<open>The rendering of a tree and the values the decoder returns\<close>

text \<open>
  \<open>withoutComments\<close> drops what the encoder skips: the items of a branch whose key is a
  \<open>sops.Comment\<close> and the elements of a slice that are one, at every depth.
\<close>

fun withoutComments :: "('n, 'o) val \<Rightarrow> ('n, 'o) val"
and withoutComments_array :: "('n, 'o) val list \<Rightarrow> ('n, 'o) val list"
and withoutComments_tree :: "('n, 'o) TreeItem list \<Rightarrow> ('n, 'o) TreeItem list" where
  "withoutComments (VBranch tree) = VBranch (withoutComments_tree tree)"
| "withoutComments (VSlice array) = VSlice (withoutComments_array array)"
| "withoutComments VNil = VNil"
| "withoutComments (VBool b) = VBool b"
| "withoutComments (VFloat f) = VFloat f"
| "withoutComments (VString s) = VString s"
| "withoutComments (VComment c) = VComment c"
| "withoutComments (VDelim d) = VDelim d"
| "withoutComments (VOpaque x) = VOpaque x"
| "withoutComments_array [] = []"
| "withoutComments_array (item # rest) =
     (if isComment item then withoutComments_array rest
      else withoutComments item # withoutComments_array rest)"
| "withoutComments_tree [] = []"
| "withoutComments_tree (TreeItem key val # rest) =
     (if isComment key then withoutComments_tree rest
      else TreeItem key (withoutComments val) # withoutComments_tree rest)"




definition inString :: "scanner \<Rightarrow> bool" where
  "inString s = (step s = stateInString)"







section \<open>Evaluation on concrete inputs\<close>




section \<open>The binary store\<close>

text \<open>
  Claim C9. For every payload \<open>p\<close>, \<open>BinaryStore.LoadPlainFile\<close> succeeds with the document
  of one branch holding the one item \<open>data: string(p)\<close>; \<open>BinaryStore.EmitPlainFile\<close> on that
  document returns exactly \<open>p\<close>; and \<open>BinaryStore.EmitValue\<close> fails on every input with
  its one error, that binary files are not structured.
\<close>

theorem BinaryStore_payload:
  "BinaryStore_LoadPlainFile st p = Ok [[TreeItem (VString ''data'') (VString p)]]
   \<and> BinaryStore_EmitPlainFile st' [[TreeItem (VString ''data'') (VString p)]] = Ok p
   \<and> BinaryStore_EmitValue st'' v = Err BinaryFilesNotStructured"
  by (simp add: BinaryStore_LoadPlainFile_def BinaryStore_EmitPlainFile_def
        BinaryStore_EmitValue_def)

section \<open>Reindentation\<close>





section \<open>Keys in the encoder\<close>

lemma json_Marshal_VString: "json_Marshal lib (VString s) = Ok (appendString s)"
  by (simp add: json_Marshal_def)

text \<open>
  Claim C5, as the code has it. An item whose key is a comment is skipped. An item whose
  key is a string is written as the quoted key, a colon, a space and the encoded value. An
  item whose key is neither makes \<open>encodeTree\<close> panic at the type assertion
  \<open>item.Key.(string)\<close>, once its value has been encoded; no error value is returned for the
  key. If encoding the value fails, that error is returned, wrapped, whatever the key.
\<close>

theorem encodeTree_keys:
  "encodeTree_range lib out e (TreeItem (VComment c) val # rest) = encodeTree_range lib out e rest
   \<and> (encodeValue lib val = Ok v \<longrightarrow>
        encodeTree_range lib out e (TreeItem (VString k) val # rest)
          = encodeTree_range lib
              ((if \<not> e then out @ '','' else out) @ [CHR 0x22] @ appendString_range k @ [CHR 0x22]
                 @ '': '' @ v) False rest)
   \<and> (\<not> isComment key \<and> \<not> isString key \<and> encodeValue lib val' = Ok v' \<longrightarrow>
        encodeTree_range lib out e (TreeItem key val' # rest) = Panic InterfaceConversion)
   \<and> (\<not> isComment key \<and> encodeValue lib val'' = Err er \<longrightarrow>
        encodeTree_range lib out e (TreeItem key val'' # rest) = Err (ErrorEncodingValue er))"
  by (cases key) (simp_all add: json_Marshal_VString appendString_def)

theorem encodeTree_keys_witness:
  "encodeTree_range exampleLib ''{'' True (TreeItem (VComment ''c'') VNil # []) = encodeTree_range exampleLib ''{'' True []
   \<and> encodeValue exampleLib VNil = Ok ''null''
   \<and> encodeTree_range exampleLib ''{'' True (TreeItem (VString ''k'') VNil # [])
          = encodeTree_range exampleLib
              ((if \<not> True then ''{'' @ '','' else ''{'') @ [CHR 0x22] @ appendString_range ''k'' @ [CHR 0x22]
                 @ '': '' @ ''null'') False []
   \<and> \<not> isComment (VOpaque ()) \<and> \<not> isString (VOpaque ())
   \<and> encodeTree_range exampleLib ''{'' True (TreeItem (VOpaque ()) VNil # []) = Panic InterfaceConversion
   \<and> encodeValue exampleLib (VOpaque ()) = Err UnsupportedValueError
   \<and> encodeTree_range exampleLib ''{'' True (TreeItem (VOpaque ()) (VOpaque ()) # [])
        = Err (ErrorEncodingValue UnsupportedValueError)"
proof -
  have v: "encodeValue exampleLib VNil = Ok ''null''"
    by (simp add: json_Marshal_def)
  have e: "encodeValue exampleLib (VOpaque ()) = Err UnsupportedValueError"
    by (simp add: json_Marshal_def exampleLib_def)
  show ?thesis
    using encodeTree_keys [where lib = exampleLib and out = "''{''" and e = True and c = "''c''"
        and val = VNil and rest = "[]" and v = "''null''" and k = "''k''" and key = "VOpaque ()"
        and val' = VNil and v' = "''null''" and val'' = "VOpaque ()" and er = UnsupportedValueError]
      v e
    by simp
qed

text \<open>
  Claim C5 as stated fails: a key that is neither a string nor a comment gives a panic, not
  an error value.
\<close>

theorem encodeTree_key_counterexample:
  "encodeTree exampleLib [TreeItem (VOpaque ()) VNil] = Panic InterfaceConversion"
  by (simp add: encodeTree_def json_Marshal_def)

section \<open>The first branch of a document\<close>









section \<open>Discarding the metadata\<close>


lemma discardMetadata_two_apart:
  "discardMetadata
     [TreeItem (VString ''a'') v1, TreeItem (VString ''sops'') v2, TreeItem (VString ''b'') v3,
      TreeItem (VString ''sops'') v4, TreeItem (VString ''c'') v5]
   = Ok [TreeItem (VString ''a'') v1, TreeItem (VString ''b'') v3, TreeItem (VString ''c'') v5]"
  by (simp add: discardMetadata_def discardMetadata_range.simps SopsMetadataKey_def)

lemma discardMetadata_two_adjacent:
  "discardMetadata
     [TreeItem (VString ''sops'') v1, TreeItem (VString ''sops'') v2, TreeItem (VString ''c'') v3]
   = Ok [TreeItem (VString ''sops'') v2, TreeItem (VString ''c'') v3]"
  by (simp add: discardMetadata_def discardMetadata_range.simps SopsMetadataKey_def)

section \<open>Loading an encrypted file\<close>





section \<open>Malformed token streams\<close>




section \<open>The encoder writes the rendering\<close>

lemma isComment_withoutComments [simp]: "isComment (withoutComments v) = isComment v"
  by (cases v) simp_all



section \<open>The scanner on a quoted string\<close>




lemma inString_same: "inString s \<Longrightarrow> s\<lparr>step := stateInString\<rparr> = s"
  by (simp add: inString_def)







section \<open>UTF-8 sequences\<close>










section \<open>Unquoting what json.Marshal quoted\<close>












section \<open>readValue on the literals of a rendering\<close>







section \<open>Token on a rendering\<close>












section \<open>The decoder on a rendering\<close>

declare Token.simps [simp del]

declare sliceFromJSONDecoder_loop.simps [simp del]

declare treeItemFromJSONDecoder.simps [simp del]

declare treeBranchFromJSONDecoder_loop.simps [simp del]











lemma tokenValueEnd_pop:
  "tokenValueEnd (dec\<lparr>buf := b, tokenStack := tokenState dec # tokenStack dec, tokenState := st,
       buf := rest, tokenState := tokenState dec, tokenStack := tokenStack dec\<rparr>)
     = tokenValueEnd (dec\<lparr>buf := rest\<rparr>)"
  by (simp add: tokenValueEnd_def)







end
